theory Spec2Isabelle
  imports Main "HOL-Library.List_Lexorder"
begin

section \<open>Strings, errors and locales\<close>

text \<open>
  A Python \<^verbatim>\<open>str\<close> is a sequence of Unicode code points. The contraction table holds
  letters beyond Latin-1 (U+017E, U+01C7, U+01CA), so a string is a list of code points;
  \<open>ascii\<close> embeds an ASCII literal.
\<close>

type_synonym pystr = "nat list"

definition ascii :: "string \<Rightarrow> pystr" where
  "ascii s = map of_char s"

datatype error = IndexError | ValueError | TypeError | AttributeError

text \<open>
  The locale object \<^verbatim>\<open>rlocale\<close> as the indexing code uses it: its identity (the code
  compares \<^verbatim>\<open>rlocale != glocale\<close>), its \<^verbatim>\<open>sort_key\<close> function into some linearly
  ordered type of collation keys, and \<^verbatim>\<open>translation.sgettext\<close>.
\<close>

record 'k rlocale =
  ident :: nat
  collation :: string
  sort_key_of :: "pystr \<Rightarrow> 'k"
  sgettext :: "pystr \<Rightarrow> pystr"

text \<open>
  What the module \<^verbatim>\<open>common.py\<close> reads from its surroundings: the process-wide locale
  \<^verbatim>\<open>glocale\<close>; \<^verbatim>\<open>PRIM_COLL\<close>, the primary-strength PyICU comparator, present when the
  \<^verbatim>\<open>try:\<close> block at import succeeded; and the two Unicode primitives the code calls,
  \<^verbatim>\<open>unicodedata.normalize('NFKC', _)\<close> and \<^verbatim>\<open>str.upper\<close>.
\<close>

record 'k env =
  glocale :: "'k rlocale"
  PRIM_COLL :: "(pystr \<Rightarrow> pystr \<Rightarrow> int) option"
  normalize_NFKC :: "pystr \<Rightarrow> pystr"
  upper :: "pystr \<Rightarrow> pystr"

text \<open>\<^verbatim>\<open>COLLATE_LANG = glocale.collation\<close>\<close>

definition COLLATE_LANG :: "'k env \<Rightarrow> string" where
  "COLLATE_LANG e = collation (glocale e)"

section \<open>Contraction table\<close>

text \<open>
  \<^verbatim>\<open>CONTRACTIONS_DICT\<close>: per language, the list of contractions in table order; each is
  the tuple of its variants and the index letter. Code points: U+00B7 = 183, U+00C5 = 197,
  U+017E = 382, U+01C7 = 455, U+01CA = 458.
\<close>

type_synonym contraction = "pystr list \<times> pystr"

definition CONTRACTIONS_TABLE :: "(string \<times> contraction list) list" where
  "CONTRACTIONS_TABLE =
    [(''ca'', [([ascii ''l'' @ [183], ascii ''L'' @ [183]], ascii ''L'')]),
     (''cs'', [([ascii ''ch'', ascii ''cH'', ascii ''Ch'', ascii ''CH''], ascii ''CH'')]),
     (''da'', [([ascii ''aa'', ascii ''Aa'', ascii ''AA''], [197])]),
     (''hr'', [([ascii ''d'' @ [382], ascii ''D'' @ [382]], ascii ''d'' @ [382]),
              ([ascii ''lj'', ascii ''Lj'', ascii ''LJ''], [455]),
              ([ascii ''Nj'', ascii ''NJ'', ascii ''nj''], [458])]),
     (''hu'', [([ascii ''cs'', ascii ''Cs'', ascii ''CS''], ascii ''CS''),
              ([ascii ''dzs'', ascii ''Dzs'', ascii ''DZS''], ascii ''DZS''),
              ([ascii ''dz'', ascii ''Dz'', ascii ''DZ''], ascii ''DZ''),
              ([ascii ''gy'', ascii ''Gy'', ascii ''GY''], ascii ''GY''),
              ([ascii ''ly'', ascii ''Ly'', ascii ''LY''], ascii ''LY''),
              ([ascii ''ny'', ascii ''Ny'', ascii ''NY''], ascii ''NY''),
              ([ascii ''sz'', ascii ''Sz'', ascii ''SZ''], ascii ''SZ''),
              ([ascii ''ty'', ascii ''Ty'', ascii ''TY''], ascii ''TY''),
              ([ascii ''zs'', ascii ''Zs'', ascii ''ZS''], ascii ''ZS'')]),
     (''nb'', [([ascii ''aa'', ascii ''Aa'', ascii ''AA''], [197])]),
     (''nn'', [([ascii ''aa'', ascii ''Aa'', ascii ''AA''], [197])]),
     (''sk'', [([ascii ''ch'', ascii ''cH'', ascii ''Ch'', ascii ''CH''], ascii ''Ch'')])]"

text \<open>\<^verbatim>\<open>CONTRACTIONS_DICT.get(lang)\<close>\<close>

definition CONTRACTIONS_DICT :: "string \<Rightarrow> contraction list option" where
  "CONTRACTIONS_DICT lang = map_of CONTRACTIONS_TABLE lang"

section \<open>First-letter extractor\<close>

text \<open>
  The loop of \<^verbatim>\<open>first_letter\<close> over the contractions:
  \<^verbatim>\<open>
  for contraction in contractions:
      count = len(contraction[0][0])
      if (len(norm_unicode) >= count and
              norm_unicode[:count] in contraction[0]):
          return contraction[1]
  \<close>
  \<open>Inr (Some l)\<close> is the early return of \<open>l\<close>, \<open>Inr None\<close> the loop running to its end;
  \<^verbatim>\<open>contraction[0][0]\<close> raises on an empty tuple of variants.
\<close>

fun match_contractions :: "contraction list \<Rightarrow> pystr \<Rightarrow> error + pystr option" where
  "match_contractions [] norm_unicode = Inr None"
| "match_contractions ((variants, letter) # rest) norm_unicode =
     (case variants of
        [] \<Rightarrow> Inl IndexError
      | v # _ \<Rightarrow>
          (let count = length v in
           if length norm_unicode \<ge> count \<and> take count norm_unicode \<in> set variants
           then Inr (Some letter)
           else match_contractions rest norm_unicode))"

text \<open>\<^verbatim>\<open>COLLATE_LANG.split("_")[0]\<close>\<close>

definition base_lang :: "string \<Rightarrow> string" where
  "base_lang lang = takeWhile (\<lambda>c. c \<noteq> CHR ''_'') lang"

text \<open>
  \<^verbatim>\<open>first_letter(string, rlocale=glocale)\<close>. The argument is \<open>None\<close> for Python's
  \<^verbatim>\<open>None\<close>. The body reads \<^verbatim>\<open>COLLATE_LANG\<close> and never its parameter \<^verbatim>\<open>rlocale\<close>.
  \<^verbatim>\<open>norm_unicode[0]\<close> raises IndexError on an empty normalised string.
\<close>

definition first_letter :: "'k env \<Rightarrow> pystr option \<Rightarrow> 'k rlocale \<Rightarrow> error + pystr" where
  "first_letter e string rl =
     (case string of
        None \<Rightarrow> Inr (ascii '' '')
      | Some s \<Rightarrow>
          if length s < 1 then Inr (ascii '' '')
          else
            (let norm_unicode = normalize_NFKC e s;
                 contractions =
                   (case CONTRACTIONS_DICT (COLLATE_LANG e) of
                      None \<Rightarrow> CONTRACTIONS_DICT (base_lang (COLLATE_LANG e))
                    | Some cs \<Rightarrow> Some cs)
             in case (case contractions of
                        None \<Rightarrow> Inr None
                      | Some cs \<Rightarrow> match_contractions cs norm_unicode) of
                  Inl err \<Rightarrow> Inl err
                | Inr (Some letter) \<Rightarrow> Inr letter
                | Inr None \<Rightarrow>
                    (case norm_unicode of
                       [] \<Rightarrow> Inl IndexError
                     | c # _ \<Rightarrow> Inr (upper e [c]))))"

section \<open>Collation adapter\<close>

text \<open>
  \<^verbatim>\<open>primary_difference\<close> of the \<^verbatim>\<open>except:\<close> branch (PyICU not importable):
  \<^verbatim>\<open>
  return rlocale.sort_key(prev_key + "e") >= rlocale.sort_key(new_key + "f") or \
         rlocale.sort_key(new_key + "e") >= rlocale.sort_key(prev_key + "f")
  \<close>
\<close>

definition primary_difference_fallback ::
    "pystr \<Rightarrow> pystr \<Rightarrow> ('k::linorder) rlocale \<Rightarrow> bool" where
  "primary_difference_fallback prev_key new_key rl =
     (sort_key_of rl (prev_key @ ascii ''e'') \<ge> sort_key_of rl (new_key @ ascii ''f'') \<or>
      sort_key_of rl (new_key @ ascii ''e'') \<ge> sort_key_of rl (prev_key @ ascii ''f''))"

text \<open>
  \<^verbatim>\<open>primary_difference\<close> of the \<^verbatim>\<open>try:\<close> branch:
  \<^verbatim>\<open>return PRIM_COLL.compare(prev_key, new_key) != 0\<close>
\<close>

definition primary_difference_icu ::
    "(pystr \<Rightarrow> pystr \<Rightarrow> int) \<Rightarrow> pystr \<Rightarrow> pystr \<Rightarrow> 'k rlocale \<Rightarrow> bool" where
  "primary_difference_icu compare prev_key new_key rl = (compare prev_key new_key \<noteq> 0)"

text \<open>The name \<^verbatim>\<open>primary_difference\<close> is bound at import to one of the two.\<close>

definition primary_difference ::
    "('k::linorder) env \<Rightarrow> pystr \<Rightarrow> pystr \<Rightarrow> 'k rlocale \<Rightarrow> bool" where
  "primary_difference e prev_key new_key rl =
     (case PRIM_COLL e of
        Some compare \<Rightarrow> primary_difference_icu compare prev_key new_key rl
      | None \<Rightarrow> primary_difference_fallback prev_key new_key rl)"

section \<open>Index builder\<close>

text \<open>
  The database as \<^verbatim>\<open>get_first_letters\<close> reads it:
  \<^verbatim>\<open>__get_person_keyname(dbase, handle)\<close> and \<^verbatim>\<open>__get_place_keyname(dbase, handle)\<close>,
  the display keys of a person and of a place (\<open>None\<close> is Python's \<^verbatim>\<open>None\<close>).
\<close>

record dbase =
  get_person_keyname :: "pystr \<Rightarrow> pystr option"
  get_place_keyname :: "pystr \<Rightarrow> pystr option"

definition KEYPERSON :: int where "KEYPERSON = 0"
definition KEYPLACE :: int where "KEYPLACE = 1"
definition KEYEVENT :: int where "KEYEVENT = 2"
definition ALPHAEVENT :: int where "ALPHAEVENT = 3"

text \<open>
  The display key of one handle, the first part of the loop body of
  \<^verbatim>\<open>get_first_letters\<close>:
  \<^verbatim>\<open>
  if key == _KEYPERSON:
      keyname = __get_person_keyname(dbase, handle)
  elif key == _KEYPLACE:
      keyname = __get_place_keyname(dbase, handle)
  else:
      if rlocale != glocale:
          keyname = rlocale.translation.sgettext(handle)
      else:
          keyname = handle
  \<close>
\<close>

definition keyname_of :: "'k env \<Rightarrow> dbase \<Rightarrow> int \<Rightarrow> 'k rlocale \<Rightarrow> pystr \<Rightarrow> pystr option" where
  "keyname_of e db key rl handle =
     (if key = KEYPERSON then get_person_keyname db handle
      else if key = KEYPLACE then get_place_keyname db handle
      else if ident rl \<noteq> ident (glocale e) then Some (sgettext rl handle)
      else Some handle)"

text \<open>
  The first loop: \<^verbatim>\<open>ltr = first_letter(keyname); index_list.append(ltr)\<close> for every
  handle. \<^verbatim>\<open>first_letter\<close> is called without a locale, so with its default
  \<^verbatim>\<open>glocale\<close>.
\<close>

fun index_letters ::
    "'k env \<Rightarrow> dbase \<Rightarrow> pystr list \<Rightarrow> int \<Rightarrow> 'k rlocale \<Rightarrow> pystr list \<Rightarrow> error + pystr list" where
  "index_letters e db [] key rl index_list = Inr index_list"
| "index_letters e db (handle # rest) key rl index_list =
     (case first_letter e (keyname_of e db key rl handle) (glocale e) of
        Inl err \<Rightarrow> Inl err
      | Inr ltr \<Rightarrow> index_letters e db rest key rl (index_list @ [ltr]))"

text \<open>
  The second loop runs over a copy of the sorted list and removes from the list itself:
  \<^verbatim>\<open>
  first = True
  prev_index = None
  for key in index_list[:]:
      if first or primary_difference(prev_index, key, rlocale):
          first = False
          prev_index = key
      else:
          index_list.remove(key)
  \<close>
  \<^verbatim>\<open>list.remove\<close> deletes the first element equal to \<^verbatim>\<open>key\<close> and raises ValueError when
  there is none; \<^verbatim>\<open>primary_difference\<close> on \<^verbatim>\<open>None\<close> raises TypeError.
\<close>

fun dedup_loop ::
    "('k::linorder) env \<Rightarrow> 'k rlocale \<Rightarrow> pystr list \<Rightarrow> bool \<Rightarrow> pystr option \<Rightarrow> pystr list
      \<Rightarrow> error + pystr list" where
  "dedup_loop e rl [] first prev_index index_list = Inr index_list"
| "dedup_loop e rl (key # rest) first prev_index index_list =
     (case (if first then Inr True
            else (case prev_index of
                    None \<Rightarrow> Inl TypeError
                  | Some p \<Rightarrow> Inr (primary_difference e p key rl))) of
        Inl err \<Rightarrow> Inl err
      | Inr True \<Rightarrow> dedup_loop e rl rest False (Some key) index_list
      | Inr False \<Rightarrow>
          if key \<in> set index_list
          then dedup_loop e rl rest first prev_index (remove1 key index_list)
          else Inl ValueError)"

text \<open>
  \<^verbatim>\<open>get_first_letters(dbase, handle_list, key, rlocale=glocale)\<close>;
  \<^verbatim>\<open>index_list.sort(key=rlocale.sort_key)\<close> is a stable sort, as \<open>sort_key\<close> is.
\<close>

definition get_first_letters ::
    "('k::linorder) env \<Rightarrow> dbase \<Rightarrow> pystr list \<Rightarrow> int \<Rightarrow> 'k rlocale \<Rightarrow> error + pystr list" where
  "get_first_letters e db handle_list key rl =
     (case index_letters e db handle_list key rl [] of
        Inl err \<Rightarrow> Inl err
      | Inr letters \<Rightarrow>
          (let index_list = sort_key (sort_key_of rl) letters
           in dedup_loop e rl index_list True None index_list))"

text \<open>
  The same loop as a function of the part of the list already visited. While the loop
  runs, the list is \<open>done @ rest\<close> with \<open>rest\<close> the elements still to visit, so
  \<^verbatim>\<open>remove(key)\<close> finds its element in \<open>done\<close> if one is there and takes the element
  being visited otherwise; \<open>prev_index = None\<close> stands for \<^verbatim>\<open>first\<close>. The lemma
  \<open>dedup_loop_acc\<close> below shows that \<open>dedup_loop\<close> computes this and never raises.
\<close>

fun dedup_acc ::
    "(pystr \<Rightarrow> pystr \<Rightarrow> bool) \<Rightarrow> pystr list \<Rightarrow> pystr option \<Rightarrow> pystr list \<Rightarrow> pystr list" where
  "dedup_acc P [] prev_index done = done"
| "dedup_acc P (key # rest) prev_index done =
     (case prev_index of
        None \<Rightarrow> dedup_acc P rest (Some key) (done @ [key])
      | Some p \<Rightarrow>
          if P p key then dedup_acc P rest (Some key) (done @ [key])
          else dedup_acc P rest prev_index
                 (if key \<in> set done then remove1 key done @ [key] else done))"

section \<open>Index lookup\<close>

text \<open>The two calls on the logger that \<^verbatim>\<open>get_index_letter\<close> makes.\<close>

datatype log_record = Warning pystr | Debug "pystr list"

text \<open>
  \<^verbatim>\<open>
  for index in index_list:
      if not primary_difference(letter, index, rlocale):
          return index
  \<close>
\<close>

fun scan_index :: "('k::linorder) env \<Rightarrow> pystr \<Rightarrow> pystr list \<Rightarrow> 'k rlocale \<Rightarrow> pystr option" where
  "scan_index e letter [] rl = None"
| "scan_index e letter (index # rest) rl =
     (if \<not> primary_difference e letter index rl then Some index
      else scan_index e letter rest rl)"

text \<open>
  \<^verbatim>\<open>get_index_letter(letter, index_list, rlocale=glocale)\<close>: the letter returned and the
  records logged. No statement of the body raises.
\<close>

definition get_index_letter ::
    "('k::linorder) env \<Rightarrow> pystr \<Rightarrow> pystr list \<Rightarrow> 'k rlocale \<Rightarrow> pystr \<times> log_record list" where
  "get_index_letter e letter index_list rl =
     (case scan_index e letter index_list rl of
        Some index \<Rightarrow> (index, [])
      | None \<Rightarrow> (letter, [Warning letter, Debug index_list]))"

section \<open>Navigation renderer\<close>

text \<open>
  \<^verbatim>\<open>sorted_set = defaultdict(int)\<close> with \<^verbatim>\<open>sorted_set[menu_item] += 1\<close>: a dictionary
  keeps its keys in the order of their first insertion, so it is an association list.
\<close>

fun increment :: "(pystr \<times> int) list \<Rightarrow> pystr \<Rightarrow> (pystr \<times> int) list" where
  "increment [] menu_item = [(menu_item, 1)]"
| "increment ((k, n) # d) menu_item =
     (if k = menu_item then (k, n + 1) # d else (k, n) # increment d menu_item)"

fun count_items :: "(pystr \<times> int) list \<Rightarrow> pystr list \<Rightarrow> (pystr \<times> int) list" where
  "count_items sorted_set [] = sorted_set"
| "count_items sorted_set (menu_item # rest) = count_items (increment sorted_set menu_item) rest"

text \<open>
  One \<^verbatim>\<open>li\<close> of the fragment: the hyperlink \<^verbatim>\<open>Html("a", menu_item, title=title_str,
  href="#%s" % menu_item)\<close>.
\<close>

record hyper =
  label :: pystr
  title :: pystr
  href :: pystr

definition make_hyper :: "'k rlocale \<Rightarrow> pystr \<Rightarrow> hyper" where
  "make_hyper rl item =
     (let menu_item = (if item = ascii '' '' then ascii ''&nbsp;'' else item);
          title_txt = ascii ''Alphabet Menu: '' @ menu_item;
          title_str = sgettext rl title_txt
      in \<lparr>label = menu_item, title = title_str, href = ascii ''#'' @ menu_item\<rparr>)"

text \<open>
  The inner loop fills one \<^verbatim>\<open>ul\<close>:
  \<^verbatim>\<open>
  cols = 0
  while cols <= num_of_cols and index < num_ltrs:
      menu_item = sorted_alpha_index[index]
      ...
      unordered.extend(Html("li", hyper, inline=True))
      index += 1
      cols += 1
  \<close>
  It returns the row and the index reached. The read \<^verbatim>\<open>sorted_alpha_index[index]\<close>
  is in range, since \<^verbatim>\<open>num_ltrs\<close> is the length of that list.
\<close>

function row_loop ::
    "'k rlocale \<Rightarrow> pystr list \<Rightarrow> nat \<Rightarrow> nat \<Rightarrow> nat \<Rightarrow> nat \<Rightarrow> hyper list \<Rightarrow> hyper list \<times> nat" where
  "row_loop rl sorted_alpha_index num_ltrs num_of_cols cols index unordered =
     (if cols \<le> num_of_cols \<and> index < num_ltrs
      then row_loop rl sorted_alpha_index num_ltrs num_of_cols (cols + 1) (index + 1)
             (unordered @ [make_hyper rl (sorted_alpha_index ! index)])
      else (unordered, index))"
  by pat_completeness auto
termination
  by (relation "measure (\<lambda>(rl, sai, num_ltrs, num_of_cols, cols, index, unordered).
                            num_of_cols + 1 - cols)") auto

text \<open>
  The outer loop, \<^verbatim>\<open>for row in range(num_of_rows)\<close>, adds one \<^verbatim>\<open>ul\<close> per row. The
  range is evaluated once, so the \<^verbatim>\<open>num_of_rows -= 1\<close> of the body changes nothing.
\<close>

fun rows_loop ::
    "'k rlocale \<Rightarrow> pystr list \<Rightarrow> nat \<Rightarrow> nat \<Rightarrow> nat \<Rightarrow> nat \<Rightarrow> hyper list list \<Rightarrow> hyper list list" where
  "rows_loop rl sorted_alpha_index num_ltrs num_of_cols 0 index alphabetnavigation =
     alphabetnavigation"
| "rows_loop rl sorted_alpha_index num_ltrs num_of_cols (Suc n) index alphabetnavigation =
     (case row_loop rl sorted_alpha_index num_ltrs num_of_cols 0 index [] of
        (unordered, index') \<Rightarrow>
          rows_loop rl sorted_alpha_index num_ltrs num_of_cols n index'
            (alphabetnavigation @ [unordered]))"

text \<open>
  \<^verbatim>\<open>alphabet_navigation(index_list, rlocale=glocale)\<close>: \<open>None\<close> is Python's \<^verbatim>\<open>None\<close>,
  otherwise the rows of the \<^verbatim>\<open>div\<close>, each the list of its links.
\<close>

definition alphabet_navigation ::
    "pystr list \<Rightarrow> ('k::linorder) rlocale \<Rightarrow> hyper list list option" where
  "alphabet_navigation index_list rl =
     (let sorted_set = count_items [] index_list;
          sorted_alpha_index = sort_key (sort_key_of rl) (map fst sorted_set)
      in if sorted_alpha_index = [] then None
         else
           (let num_ltrs = length sorted_alpha_index;
                num_of_cols = 26;
                num_of_rows = (num_ltrs div num_of_cols) + 1
            in Some (rows_loop rl sorted_alpha_index num_ltrs num_of_cols num_of_rows 0 [])))"

section \<open>The filter rule HasGalleryBase\<close>

text \<open>
  The rule object: \<^verbatim>\<open>self.list\<close>, and the two attributes that \<^verbatim>\<open>prepare\<close> sets
  (\<open>None\<close> while unset). The object filtered is read through \<^verbatim>\<open>get_media_list()\<close>.
\<close>

record rule =
  rule_list :: "pystr list"
  count_type :: "int option"
  userSelectedCount :: "int option"

record 'm gallery_obj =
  get_media_list :: "'m list"

text \<open>
  \<^verbatim>\<open>prepare(self, db, user)\<close>. \<^verbatim>\<open>self.list[1]\<close> and \<^verbatim>\<open>self.list[0]\<close> raise IndexError on
  a short list; \<^verbatim>\<open>int\<close> is Python's builtin, a parameter here, \<open>None\<close> where it raises
  ValueError.
\<close>

definition prepare :: "(pystr \<Rightarrow> int option) \<Rightarrow> rule \<Rightarrow> error + rule" where
  "prepare py_int self =
     (if length (rule_list self) < 2 then Inl IndexError
      else
        (let self1 =
               (if rule_list self ! 1 = ascii ''less than'' then self\<lparr>count_type := Some 0\<rparr>
                else if rule_list self ! 1 = ascii ''greater than'' then self\<lparr>count_type := Some 2\<rparr>
                else self\<lparr>count_type := Some 1\<rparr>)
         in case py_int (rule_list self ! 0) of
              None \<Rightarrow> Inl ValueError
            | Some n \<Rightarrow> Inr (self1\<lparr>userSelectedCount := Some n\<rparr>)))"

text \<open>
  \<^verbatim>\<open>apply(self, db, obj)\<close>, returned with the database and the object as the call leaves
  them; an attribute that \<^verbatim>\<open>prepare\<close> has not set raises AttributeError.
\<close>

definition apply_rule :: "rule \<Rightarrow> 'db \<Rightarrow> 'm gallery_obj \<Rightarrow> (error + bool) \<times> 'db \<times> 'm gallery_obj" where
  "apply_rule self db obj =
     (let count = int (length (get_media_list obj))
      in (case count_type self of
            None \<Rightarrow> Inl AttributeError
          | Some ct \<Rightarrow>
              (case userSelectedCount self of
                 None \<Rightarrow> Inl AttributeError
               | Some n \<Rightarrow>
                   if ct = 0 then Inr (count < n)
                   else if ct = 2 then Inr (count > n)
                   else Inr (count = n)),
          db, obj))"

section \<open>Concrete locales and inputs\<close>

text \<open>
  Data for the examples below. \<open>codepoint_locale\<close> sorts by code points, as the C locale
  does: its sort key is the string itself, ordered lexicographically. \<open>plain_env\<close> has no
  PyICU, so the fallback comparator is in force; on the ASCII examples used here the
  identity and \<open>ascii_upper\<close> agree with NFKC normalisation and \<^verbatim>\<open>str.upper\<close>.
\<close>

definition ascii_upper :: "pystr \<Rightarrow> pystr" where
  "ascii_upper s = map (\<lambda>c. if 97 \<le> c \<and> c \<le> 122 then c - 32 else c) s"

definition codepoint_locale :: "nat \<Rightarrow> string \<Rightarrow> pystr rlocale" where
  "codepoint_locale i l =
     \<lparr>ident = i, collation = l, sort_key_of = (\<lambda>s. s), sgettext = (\<lambda>s. s)\<rparr>"

definition plain_env :: "'k rlocale \<Rightarrow> 'k env" where
  "plain_env g =
     \<lparr>glocale = g, PRIM_COLL = None, normalize_NFKC = (\<lambda>s. s), upper = ascii_upper\<rparr>"

text \<open>The string "dzsudo" with an acute on its last letter, U+00F3 = 243.\<close>

definition dzsudo :: pystr where
  "dzsudo = ascii ''dzsud'' @ [243]"

text \<open>Twenty-seven bucket letters: A to Z and U+00C5.\<close>

definition letters27 :: "pystr list" where
  "letters27 = map (\<lambda>n. [n]) [65..<91] @ [[197]]"

text \<open>A database whose display keys are the handles themselves, and three event types.\<close>

definition plain_db :: dbase where
  "plain_db = \<lparr>get_person_keyname = (\<lambda>h. Some h), get_place_keyname = (\<lambda>h. Some h)\<rparr>"

definition three_names :: "pystr list" where
  "three_names = [ascii ''bob'', ascii ''alice'', ascii ''anna'']"

text \<open>A rule asking for fewer than two media references, and an \<^verbatim>\<open>int\<close> for its parameter.\<close>

definition less_than_two :: rule where
  "less_than_two =
     \<lparr>rule_list = [ascii ''2'', ascii ''less than''], count_type = None,
      userSelectedCount = None\<rparr>"

definition int_of_two :: "pystr \<Rightarrow> int option" where
  "int_of_two s = (if s = ascii ''2'' then Some 2 else None)"

section \<open>Properties of the fallback comparator\<close>

text \<open>
  C5. The fallback \<^verbatim>\<open>primary_difference\<close> returns false (no primary difference) exactly
  when both \<^verbatim>\<open>sort_key(A+"e") < sort_key(B+"f")\<close> and \<^verbatim>\<open>sort_key(B+"e") < sort_key(A+"f")\<close>
  hold under the locale's sort key, for all keys A, B and every locale.
\<close>

theorem primary_difference_fallback_false_iff:
  "(primary_difference_fallback A B rl = False) =
     (sort_key_of rl (A @ ascii ''e'') < sort_key_of rl (B @ ascii ''f'') \<and>
      sort_key_of rl (B @ ascii ''e'') < sort_key_of rl (A @ ascii ''f''))"
  unfolding primary_difference_fallback_def by (simp add: not_le)

text \<open>
  C6. The fallback comparator is symmetric: \<^verbatim>\<open>primary_difference(A, B, locale)\<close> equals
  \<^verbatim>\<open>primary_difference(B, A, locale)\<close> for all keys A, B and every locale.
\<close>

theorem primary_difference_fallback_symmetric:
  "primary_difference_fallback A B rl = primary_difference_fallback B A rl"
  unfolding primary_difference_fallback_def by (rule disj_commute)

section \<open>Properties of the first-letter extractor\<close>

lemma CONTRACTIONS_DICT_key_length: "CONTRACTIONS_DICT k = Some cs \<Longrightarrow> length k = 2"
  by (auto simp: CONTRACTIONS_DICT_def CONTRACTIONS_TABLE_def split: if_splits)

lemma base_lang_full: "length (base_lang l) = length l \<Longrightarrow> base_lang l = l"
  unfolding base_lang_def
  by (metis takeWhile_dropWhile_id append_eq_conv_conj append_Nil2)

text \<open>A tag whose base language is \<open>hu\<close> selects the Hungarian contractions.\<close>

lemma contractions_of_hu:
  assumes "base_lang l = ''hu''"
  shows "(case CONTRACTIONS_DICT l of
            None \<Rightarrow> CONTRACTIONS_DICT (base_lang l)
          | Some cs \<Rightarrow> Some cs) = CONTRACTIONS_DICT ''hu''"
proof (cases "CONTRACTIONS_DICT l")
  case None
  then show ?thesis using assms by simp
next
  case (Some cs)
  then have "length l = 2" by (rule CONTRACTIONS_DICT_key_length)
  with assms have "base_lang l = l" by (intro base_lang_full) simp
  with assms Some show ?thesis by simp
qed

text \<open>
  C3. When the collation language is Hungarian (\<^verbatim>\<open>COLLATE_LANG\<close> is \<open>hu\<close> or \<open>hu_\<close>
  followed by anything), \<^verbatim>\<open>first_letter\<close> of \<open>dzsudo\<close> is "DZS": the entry \<open>dzs\<close> comes
  before \<open>dz\<close> in the table and the first entry matching the prefix wins. The string is
  in NFKC form already, which is the second hypothesis.
\<close>

theorem first_letter_dzsudo:
  assumes "base_lang (COLLATE_LANG e) = ''hu''"
    and "normalize_NFKC e dzsudo = dzsudo"
  shows "first_letter e (Some dzsudo) rl = Inr (ascii ''DZS'')"
proof -
  obtain cs where d: "CONTRACTIONS_DICT ''hu'' = Some cs"
    and m: "match_contractions cs dzsudo = Inr (Some (ascii ''DZS''))"
    by (simp add: CONTRACTIONS_DICT_def CONTRACTIONS_TABLE_def dzsudo_def ascii_def)
  have n: "length dzsudo \<noteq> 0" by (simp add: dzsudo_def ascii_def)
  show ?thesis
    unfolding first_letter_def
    using n assms(2) contractions_of_hu [OF assms(1)] m d
    by (simp add: Let_def)
qed

theorem first_letter_dzsudo_witness:
  "base_lang (COLLATE_LANG (plain_env (codepoint_locale 0 ''hu_HU''))) = ''hu'' \<and>
   normalize_NFKC (plain_env (codepoint_locale 0 ''hu_HU'')) dzsudo = dzsudo \<and>
   first_letter (plain_env (codepoint_locale 0 ''hu_HU'')) (Some dzsudo) (codepoint_locale 1 ''en'')
     = Inr [68, 90, 83]"
  using first_letter_dzsudo [of "plain_env (codepoint_locale 0 ''hu_HU'')" "codepoint_locale 1 ''en''"]
  by (simp add: plain_env_def codepoint_locale_def COLLATE_LANG_def base_lang_def ascii_def)

text \<open>
  C9. The locale passed per call is to select the contraction data, so that a call gives
  what it would give were that locale the process-wide one. \<^verbatim>\<open>first_letter\<close> takes the
  parameter \<^verbatim>\<open>rlocale\<close> and never reads it: the table is looked up with the process-wide
  \<^verbatim>\<open>COLLATE_LANG\<close>. With an English process-wide locale and the Hungarian locale passed,
  \<open>dzsudo\<close> gives "D"; the same call under a Hungarian process-wide locale gives "DZS".
\<close>

theorem first_letter_locale_argument_unread:
  "first_letter (plain_env (codepoint_locale 0 ''en'')) (Some dzsudo) (codepoint_locale 1 ''hu'')
     = Inr (ascii ''D'') \<and>
   first_letter ((plain_env (codepoint_locale 0 ''en''))\<lparr>glocale := codepoint_locale 1 ''hu''\<rparr>)
       (Some dzsudo) (codepoint_locale 1 ''hu'')
     = Inr (ascii ''DZS'')"
  by (simp add: first_letter_def plain_env_def codepoint_locale_def COLLATE_LANG_def
      CONTRACTIONS_DICT_def CONTRACTIONS_TABLE_def base_lang_def ascii_def dzsudo_def
      ascii_upper_def)

section \<open>Properties of the index lookup\<close>

lemma scan_index_find:
  "scan_index e letter index_list rl =
     find (\<lambda>index. \<not> primary_difference e letter index rl) index_list"
  by (induction index_list) simp_all

text \<open>
  C7. \<^verbatim>\<open>get_index_letter\<close> returns the first element of the list with no primary
  difference from the letter, logging nothing; when there is none it logs a warning (and a
  debug record) and returns the letter unchanged. It is total: no input makes it raise.
\<close>

theorem get_index_letter_first_match:
  "get_index_letter e letter index_list rl =
     (case find (\<lambda>index. \<not> primary_difference e letter index rl) index_list of
        Some index \<Rightarrow> (index, [])
      | None \<Rightarrow> (letter, [Warning letter, Debug index_list]))"
  by (simp add: get_index_letter_def scan_index_find)

section \<open>Properties of the index builder\<close>

subsection \<open>The second loop never raises\<close>

lemma remove1_middle:
  "remove1 key (A @ key # rest) = (if key \<in> set A then remove1 key A @ [key] else A) @ rest"
  by (simp add: remove1_append)

lemma dedup_loop_acc:
  "(first \<longleftrightarrow> prev = None) \<Longrightarrow>
   dedup_loop e rl xs first prev (A @ xs) =
     Inr (dedup_acc (\<lambda>a b. primary_difference e a b rl) xs prev A)"
proof (induction xs arbitrary: first prev A)
  case Nil
  then show ?case by simp
next
  case (Cons key rest)
  have app: "A @ key # rest = (A @ [key]) @ rest" by simp
  have keep: "dedup_loop e rl rest False (Some key) (A @ key # rest) =
      Inr (dedup_acc (\<lambda>a b. primary_difference e a b rl) rest (Some key) (A @ [key]))"
    unfolding app by (rule Cons.IH) simp
  show ?case
  proof (cases prev)
    case None
    with Cons.prems keep show ?thesis by simp
  next
    case (Some p)
    with Cons.prems have nf: "\<not> first" by simp
    show ?thesis
    proof (cases "primary_difference e p key rl")
      case True
      with Some nf keep show ?thesis by simp
    next
      case False
      have "dedup_loop e rl rest False (Some p) (remove1 key (A @ key # rest)) =
          Inr (dedup_acc (\<lambda>a b. primary_difference e a b rl) rest (Some p)
                 (if key \<in> set A then remove1 key A @ [key] else A))"
        unfolding remove1_middle by (rule Cons.IH) simp
      with False Some nf show ?thesis by simp
    qed
  qed
qed

lemma set_remove1_reinsert: "key \<in> set A \<Longrightarrow> set (remove1 key A @ [key]) = set A"
  by (induction A) auto

lemma dedup_acc_keeps: "set A \<subseteq> set (dedup_acc P xs prev A)"
proof (induction xs arbitrary: prev A)
  case Nil
  then show ?case by simp
next
  case (Cons key rest)
  let ?A' = "if key \<in> set A then remove1 key A @ [key] else A"
  have sA': "set ?A' = set A" using set_remove1_reinsert [of key A] by (cases "key \<in> set A") simp_all
  have k: "set A \<subseteq> set (dedup_acc P rest (Some key) (A @ [key]))"
    using Cons.IH [where prev = "Some key" and A = "A @ [key]"] by simp
  have d: "set A \<subseteq> set (dedup_acc P rest q ?A')" for q
    using Cons.IH [where prev = q and A = ?A'] unfolding sA' .
  show ?case
  proof (cases prev)
    case None
    with k show ?thesis by simp
  next
    case (Some p)
    with k d [of "Some p"] show ?thesis by (cases "P p key") simp_all
  qed
qed

lemma dedup_acc_cover:
  assumes "x \<in> set xs" and "\<forall>p. prev = Some p \<longrightarrow> p \<in> set A"
  shows "x \<in> set (dedup_acc P xs prev A) \<or> (\<exists>p \<in> set (dedup_acc P xs prev A). \<not> P p x)"
  using assms
proof (induction xs arbitrary: prev A)
  case Nil
  then show ?case by simp
next
  case (Cons key rest)
  let ?A' = "if key \<in> set A then remove1 key A @ [key] else A"
  have sA': "set ?A' = set A" using set_remove1_reinsert [of key A] by (cases "key \<in> set A") simp_all
  show ?case
  proof (cases "\<exists>p. prev = Some p \<and> \<not> P p key")
    case True
    then obtain p where p: "prev = Some p" "\<not> P p key" by blast
    then have step: "dedup_acc P (key # rest) prev A = dedup_acc P rest prev ?A'" by simp
    have pin: "p \<in> set (dedup_acc P rest prev ?A')"
      using dedup_acc_keeps [of ?A' P rest prev] Cons.prems(2) p(1) sA' by auto
    show ?thesis
    proof (cases "x = key")
      case True
      with pin p(2) step show ?thesis by auto
    next
      case False
      with Cons.prems(1) have "x \<in> set rest" by simp
      moreover have "\<forall>q. prev = Some q \<longrightarrow> q \<in> set ?A'" using Cons.prems(2) sA' by simp
      ultimately show ?thesis unfolding step by (rule Cons.IH)
    qed
  next
    case False
    then have step: "dedup_acc P (key # rest) prev A = dedup_acc P rest (Some key) (A @ [key])"
      by (auto split: option.splits)
    show ?thesis
    proof (cases "x = key")
      case True
      then show ?thesis using dedup_acc_keeps [of "A @ [key]" P rest "Some key"] step by auto
    next
      case False
      with Cons.prems(1) have "x \<in> set rest" by simp
      moreover have "\<forall>q. Some key = Some q \<longrightarrow> q \<in> set (A @ [key])" by simp
      ultimately show ?thesis unfolding step by (rule Cons.IH)
    qed
  qed
qed

lemma dedup_acc_sorted:
  "sorted (map f (A @ xs)) \<Longrightarrow> sorted (map f (dedup_acc P xs prev A))"
proof (induction xs arbitrary: prev A)
  case Nil
  then show ?case by simp
next
  case (Cons key rest)
  have k: "sorted (map f (dedup_acc P rest (Some key) (A @ [key])))"
    by (rule Cons.IH) (use Cons.prems in simp)
  have "sorted (map f (remove1 key (A @ key # rest)))"
    using Cons.prems by (rule sorted_map_remove1)
  then have d: "sorted (map f (dedup_acc P rest q (if key \<in> set A then remove1 key A @ [key] else A)))" for q
    unfolding remove1_middle by (rule Cons.IH)
  show ?case
  proof (cases prev)
    case None
    with k show ?thesis by simp
  next
    case (Some p)
    with k d [of "Some p"] show ?thesis by (cases "P p key") simp_all
  qed
qed

text \<open>
  Where distinct letters with the same sort key have no primary difference, the letters
  kept so far and tied with the visited one are all equal to it, so \<^verbatim>\<open>remove\<close> leaves
  the kept letters as they are.
\<close>

lemma tied_run_all_equal:
  assumes "successively P (x # ys)" and "\<forall>y \<in> set ys. f y = f x"
    and "\<forall>a \<in> set (x # ys). \<forall>b \<in> set (x # ys). a \<noteq> b \<and> f a = f b \<longrightarrow> \<not> P a b"
  shows "\<forall>y \<in> set ys. y = x"
  using assms
proof (induction ys arbitrary: x)
  case Nil
  then show ?case by simp
next
  case (Cons y ys)
  from Cons.prems(1) have pxy: "P x y" and rest: "successively P (y # ys)" by simp_all
  from Cons.prems(2) have fy: "f y = f x" by simp
  have yx: "y = x"
  proof (rule ccontr)
    assume "y \<noteq> x"
    with fy Cons.prems(3) have "\<not> P x y" by auto
    with pxy show False by simp
  qed
  have "\<forall>z \<in> set ys. z = y"
  proof (rule Cons.IH [OF rest])
    show "\<forall>z \<in> set ys. f z = f y" using Cons.prems(2) fy by simp
    show "\<forall>a \<in> set (y # ys). \<forall>b \<in> set (y # ys). a \<noteq> b \<and> f a = f b \<longrightarrow> \<not> P a b"
      using Cons.prems(3) by simp
  qed
  with yx show ?case by simp
qed

lemma run_of_tied_keys:
  assumes "sorted (map f (A @ [key]))" and "successively P A"
    and "\<forall>a \<in> set A. \<forall>b \<in> set A. a \<noteq> b \<and> f a = f b \<longrightarrow> \<not> P a b"
    and "key \<in> set A"
  shows "remove1 key A @ [key] = A"
  using assms
proof (induction A)
  case Nil
  then show ?case by simp
next
  case (Cons a A)
  show ?case
  proof (cases "a = key")
    case True
    have "f x = f a" if "x \<in> set A" for x
    proof -
      from Cons.prems(1) that have "f a \<le> f x" "f x \<le> f key"
        by (auto simp: sorted_append)
      with True show ?thesis by simp
    qed
    then have "\<forall>y \<in> set A. f y = f a" by simp
    with Cons.prems(2) have "\<forall>y \<in> set A. y = a"
      using Cons.prems(3) by (rule tied_run_all_equal)
    with True have "A = replicate (length A) key" by (simp add: replicate_length_same)
    then have "A @ [key] = key # A" by (metis replicate_append_same)
    with True show ?thesis by simp
  next
    case False
    with Cons.prems(4) have "key \<in> set A" by simp
    moreover from Cons.prems(1) have "sorted (map f (A @ [key]))" by simp
    moreover from Cons.prems(2) have "successively P A" by (auto simp: successively_Cons)
    moreover from Cons.prems(3)
    have "\<forall>a \<in> set A. \<forall>b \<in> set A. a \<noteq> b \<and> f a = f b \<longrightarrow> \<not> P a b" by simp
    ultimately have "remove1 key A @ [key] = A" by (intro Cons.IH)
    with False show ?thesis by simp
  qed
qed

lemma dedup_acc_adjacent:
  assumes "\<forall>a \<in> set (A @ xs). \<forall>b \<in> set (A @ xs). a \<noteq> b \<and> f a = f b \<longrightarrow> \<not> P a b"
    and "sorted (map f (A @ xs))" and "successively P A"
    and "case prev of None \<Rightarrow> A = [] | Some p \<Rightarrow> A \<noteq> [] \<and> last A = p"
  shows "successively P (dedup_acc P xs prev A)"
  using assms
proof (induction xs arbitrary: prev A)
  case Nil
  then show ?case by simp
next
  case (Cons key rest)
  have app: "A @ key # rest = (A @ [key]) @ rest" by simp
  show ?case
  proof (cases "\<exists>p. prev = Some p \<and> \<not> P p key")
    case True
    then obtain p where p: "prev = Some p" "\<not> P p key" by blast
    have same: "(if key \<in> set A then remove1 key A @ [key] else A) = A"
    proof (cases "key \<in> set A")
      case True
      from Cons.prems(2) have "sorted (map f (A @ [key]))"
        by (simp add: sorted_append)
      moreover note Cons.prems(3)
      moreover from Cons.prems(1)
      have "\<forall>a \<in> set A. \<forall>b \<in> set A. a \<noteq> b \<and> f a = f b \<longrightarrow> \<not> P a b" by simp
      ultimately have "remove1 key A @ [key] = A" using True by (rule run_of_tied_keys)
      with True show ?thesis by simp
    next
      case False
      then show ?thesis by simp
    qed
    have step: "dedup_acc P (key # rest) prev A = dedup_acc P rest prev A"
      using p same by simp
    have "\<forall>a \<in> set (A @ rest). \<forall>b \<in> set (A @ rest). a \<noteq> b \<and> f a = f b \<longrightarrow> \<not> P a b"
      using Cons.prems(1) by simp
    moreover have "sorted (map f (A @ rest))" using Cons.prems(2) by (auto simp: sorted_append)
    ultimately show ?thesis
      unfolding step using Cons.prems(3,4) by (rule Cons.IH)
  next
    case False
    then have step: "dedup_acc P (key # rest) prev A = dedup_acc P rest (Some key) (A @ [key])"
      by (auto split: option.splits)
    have "successively P (A @ [key])"
      using Cons.prems(3,4) False
      by (auto simp: successively_append_iff split: option.splits)
    moreover have "case Some key of None \<Rightarrow> A @ [key] = []
                   | Some p \<Rightarrow> A @ [key] \<noteq> [] \<and> last (A @ [key]) = p"
      by simp
    ultimately show ?thesis
      unfolding step using Cons.prems(1,2) unfolding app
      by (intro Cons.IH)
  qed
qed

subsection \<open>What the loop keeps\<close>

lemma dedup_acc_subset: "set (dedup_acc P xs prev A) \<subseteq> set A \<union> set xs"
proof (induction xs arbitrary: prev A)
  case Nil
  then show ?case by simp
next
  case (Cons key rest)
  let ?A' = "if key \<in> set A then remove1 key A @ [key] else A"
  have sA': "set ?A' = set A" using set_remove1_reinsert [of key A] by (cases "key \<in> set A") simp_all
  have k: "set (dedup_acc P rest (Some key) (A @ [key])) \<subseteq> set A \<union> set (key # rest)"
    using Cons.IH [where prev = "Some key" and A = "A @ [key]"] by auto
  have d: "set (dedup_acc P rest q ?A') \<subseteq> set A \<union> set (key # rest)" for q
    using Cons.IH [where prev = q and A = ?A'] unfolding sA' by auto
  show ?case
  proof (cases prev)
    case None
    with k show ?thesis by simp
  next
    case (Some p)
    with k d [of "Some p"] show ?thesis by (cases "P p key") simp_all
  qed
qed

lemma index_letters_acc:
  "index_letters e db hs key rl acc = Inr letters \<Longrightarrow>
   set acc \<subseteq> set letters \<and>
   (\<forall>h \<in> set hs. \<exists>l \<in> set letters. first_letter e (keyname_of e db key rl h) (glocale e) = Inr l)"
proof (induction hs arbitrary: acc)
  case Nil
  then show ?case by simp
next
  case (Cons h hs)
  from Cons.prems obtain ltr where
    l: "first_letter e (keyname_of e db key rl h) (glocale e) = Inr ltr"
    and r: "index_letters e db hs key rl (acc @ [ltr]) = Inr letters"
    by (auto split: sum.splits)
  from Cons.IH [OF r] l show ?case by auto
qed

lemma first_letter_any_locale: "first_letter e string rl = first_letter e string rl'"
  by (simp add: first_letter_def)

lemma get_first_letters_acc:
  assumes "index_letters e db hs key rl [] = Inr letters"
  shows "get_first_letters e db hs key rl =
           Inr (dedup_acc (\<lambda>a b. primary_difference e a b rl)
                  (sort_key (sort_key_of rl) letters) None [])"
  using assms dedup_loop_acc [of True None e rl "sort_key (sort_key_of rl) letters" "[]"]
  by (simp add: get_first_letters_def Let_def)

subsection \<open>Order and distinctness of the buckets\<close>

text \<open>
  C1. The list returned by \<^verbatim>\<open>get_first_letters\<close> is sorted ascending by the locale's
  sort key, and every two adjacent elements of it have a primary difference. The locale
  is one whose sort is consistent with its collation: distinct letters to which the sort
  key gives the same key have no primary difference, so that the letters without a
  primary difference form runs of the sorted list. The first hypothesis names the letters
  that the first loop collects; with it the function returns.
\<close>

theorem get_first_letters_sorted_adjacent:
  assumes "index_letters e db handle_list key rl [] = Inr letters"
    and "\<forall>a \<in> set letters. \<forall>b \<in> set letters.
           a \<noteq> b \<and> sort_key_of rl a = sort_key_of rl b \<longrightarrow> \<not> primary_difference e a b rl"
  shows "\<exists>bs. get_first_letters e db handle_list key rl = Inr bs \<and>
           sorted (map (sort_key_of rl) bs) \<and>
           (\<forall>i. Suc i < length bs \<longrightarrow> primary_difference e (bs ! i) (bs ! Suc i) rl)"
proof -
  let ?P = "\<lambda>a b. primary_difference e a b rl"
  let ?S = "sort_key (sort_key_of rl) letters"
  let ?bs = "dedup_acc ?P ?S None []"
  have r: "get_first_letters e db handle_list key rl = Inr ?bs"
    using assms(1) by (rule get_first_letters_acc)
  have s: "sorted (map (sort_key_of rl) ?bs)"
    by (rule dedup_acc_sorted) simp
  have a: "successively ?P ?bs"
    by (rule dedup_acc_adjacent [where f = "sort_key_of rl"]) (use assms(2) in simp_all)
  from r s a show ?thesis by (auto simp: successively_conv_nth)
qed

theorem get_first_letters_sorted_adjacent_witness:
  "index_letters (plain_env (codepoint_locale 0 ''en'')) plain_db three_names ALPHAEVENT
     (codepoint_locale 0 ''en'') [] = Inr [[66], [65], [65]] \<and>
   sort_key_of (codepoint_locale 0 ''en'') [66] \<noteq> sort_key_of (codepoint_locale 0 ''en'') [65] \<and>
   get_first_letters (plain_env (codepoint_locale 0 ''en'')) plain_db three_names ALPHAEVENT
     (codepoint_locale 0 ''en'') = Inr [[65], [66]] \<and>
   sorted (map (sort_key_of (codepoint_locale 0 ''en'')) [[65], [66]]) \<and>
   primary_difference (plain_env (codepoint_locale 0 ''en'')) [65] [66] (codepoint_locale 0 ''en'')"
  using get_first_letters_sorted_adjacent [of "plain_env (codepoint_locale 0 ''en'')" plain_db
      three_names ALPHAEVENT "codepoint_locale 0 ''en''" "[[66], [65], [65]]"]
  by (simp add: get_first_letters_def first_letter_def keyname_of_def plain_env_def
      codepoint_locale_def plain_db_def three_names_def ALPHAEVENT_def KEYPERSON_def KEYPLACE_def
      COLLATE_LANG_def CONTRACTIONS_DICT_def CONTRACTIONS_TABLE_def base_lang_def ascii_def
      ascii_upper_def primary_difference_def primary_difference_fallback_def)

subsection \<open>Coverage of the letters by the buckets\<close>

text \<open>
  C2. For every item, the first letter of its display key is mapped by
  \<^verbatim>\<open>get_index_letter\<close>, on the bucket list that \<^verbatim>\<open>get_first_letters\<close> returns for the
  same items and locale, to a member of that list: the scan finds a bucket with no
  primary difference from the letter and the not-found branch is not taken (nothing is
  logged). The comparator is one that tests a difference of collation level: on the
  collected letters it is symmetric, which the fallback comparator always is, and no
  letter differs from itself.
\<close>

theorem get_index_letter_finds_bucket:
  assumes "index_letters e db handle_list key rl [] = Inr letters"
    and "handle \<in> set handle_list"
    and "\<forall>a \<in> set letters. \<forall>b \<in> set letters.
           primary_difference e a b rl = primary_difference e b a rl"
    and "\<forall>a \<in> set letters. \<not> primary_difference e a a rl"
  shows "\<exists>bs l b. get_first_letters e db handle_list key rl = Inr bs \<and>
           first_letter e (keyname_of e db key rl handle) rl = Inr l \<and>
           get_index_letter e l bs rl = (b, []) \<and>
           b \<in> set bs \<and> \<not> primary_difference e l b rl"
proof -
  let ?P = "\<lambda>a b. primary_difference e a b rl"
  let ?S = "sort_key (sort_key_of rl) letters"
  let ?bs = "dedup_acc ?P ?S None []"
  have r: "get_first_letters e db handle_list key rl = Inr ?bs"
    using assms(1) by (rule get_first_letters_acc)
  from index_letters_acc [OF assms(1)] assms(2) obtain l where
    l: "l \<in> set letters" "first_letter e (keyname_of e db key rl handle) (glocale e) = Inr l"
    by blast
  have fl: "first_letter e (keyname_of e db key rl handle) rl = Inr l"
    using l(2) first_letter_any_locale [of e _ rl "glocale e"] by simp
  have sub: "set ?bs \<subseteq> set letters"
    using dedup_acc_subset [of ?P ?S None "[]"] by simp
  have cov: "l \<in> set ?bs \<or> (\<exists>p \<in> set ?bs. \<not> ?P p l)"
    by (rule dedup_acc_cover) (use l(1) in simp_all)
  have "\<exists>p \<in> set ?bs. \<not> ?P l p"
  proof (cases "l \<in> set ?bs")
    case True
    with assms(4) l(1) show ?thesis by blast
  next
    case False
    with cov obtain p where "p \<in> set ?bs" "\<not> ?P p l" by blast
    with assms(3) sub l(1) show ?thesis by blast
  qed
  then obtain b where b: "find (\<lambda>index. \<not> ?P l index) ?bs = Some b"
    by (cases "find (\<lambda>index. \<not> ?P l index) ?bs") (auto simp: find_None_iff)
  then have "b \<in> set ?bs" "\<not> ?P l b" by (auto simp: find_Some_iff)
  moreover have "get_index_letter e l ?bs rl = (b, [])"
    using b by (simp add: get_index_letter_def scan_index_find)
  ultimately show ?thesis using r fl by blast
qed

theorem get_index_letter_finds_bucket_witness:
  "index_letters (plain_env (codepoint_locale 0 ''en'')) plain_db three_names ALPHAEVENT
     (codepoint_locale 0 ''en'') [] = Inr [[66], [65], [65]] \<and>
   ascii ''anna'' \<in> set three_names \<and>
   primary_difference (plain_env (codepoint_locale 0 ''en'')) [66] [65] (codepoint_locale 0 ''en'') =
     primary_difference (plain_env (codepoint_locale 0 ''en'')) [65] [66] (codepoint_locale 0 ''en'') \<and>
   \<not> primary_difference (plain_env (codepoint_locale 0 ''en'')) [65] [65] (codepoint_locale 0 ''en'') \<and>
   \<not> primary_difference (plain_env (codepoint_locale 0 ''en'')) [66] [66] (codepoint_locale 0 ''en'') \<and>
   get_first_letters (plain_env (codepoint_locale 0 ''en'')) plain_db three_names ALPHAEVENT
     (codepoint_locale 0 ''en'') = Inr [[65], [66]] \<and>
   first_letter (plain_env (codepoint_locale 0 ''en''))
     (keyname_of (plain_env (codepoint_locale 0 ''en'')) plain_db ALPHAEVENT
        (codepoint_locale 0 ''en'') (ascii ''anna'')) (codepoint_locale 0 ''en'') = Inr [65] \<and>
   get_index_letter (plain_env (codepoint_locale 0 ''en'')) [65] [[65], [66]]
     (codepoint_locale 0 ''en'') = ([65], [])"
  using get_index_letter_finds_bucket [of "plain_env (codepoint_locale 0 ''en'')" plain_db
      three_names ALPHAEVENT "codepoint_locale 0 ''en''" "[[66], [65], [65]]" "ascii ''anna''"]
  by (simp add: get_first_letters_def get_index_letter_def first_letter_def keyname_of_def
      plain_env_def
      codepoint_locale_def plain_db_def three_names_def ALPHAEVENT_def KEYPERSON_def KEYPLACE_def
      COLLATE_LANG_def CONTRACTIONS_DICT_def CONTRACTIONS_TABLE_def base_lang_def ascii_def
      ascii_upper_def primary_difference_def primary_difference_fallback_def)

section \<open>Empty input\<close>

text \<open>
  C8. \<^verbatim>\<open>get_first_letters\<close> of an empty handle list returns the empty list, for every
  database, key and locale; \<^verbatim>\<open>alphabet_navigation\<close> of an empty bucket list returns
  \<^verbatim>\<open>None\<close>.
\<close>

theorem empty_input:
  "get_first_letters e db [] key rl = Inr [] \<and> alphabet_navigation [] rl = None"
  by (simp add: get_first_letters_def alphabet_navigation_def)

section \<open>Rows of the navigation fragment\<close>

text \<open>
  C4. The rows are to hold 26 links each, the last one possibly fewer. The inner loop
  tests \<^verbatim>\<open>cols <= num_of_cols\<close>, so a row takes 27: on twenty-seven letters the
  fragment has a first row of 27 links and an empty second row.
\<close>

theorem alphabet_navigation_27_letters:
  "map_option (map length) (alphabet_navigation letters27 (codepoint_locale 0 ''en''))
     = Some [27, 0]"
  by code_simp

section \<open>Properties of HasGalleryBase\<close>

text \<open>
  C10. For a rule that \<^verbatim>\<open>prepare\<close> has accepted, with \<open>n\<close> the integer of its first
  parameter, \<^verbatim>\<open>apply\<close> returns whether the number of media references is less than \<open>n\<close>
  when the second parameter is \<open>less than\<close>, greater than \<open>n\<close> when it is
  \<open>greater than\<close>, and equal to \<open>n\<close> for any other string; the database and the object
  are as before the call.
\<close>

theorem apply_rule_prepared:
  assumes "prepare py_int r = Inr self"
  shows "\<exists>n. py_int (rule_list r ! 0) = Some n \<and> userSelectedCount self = Some n \<and>
           apply_rule self db obj =
             (Inr (if rule_list r ! 1 = ascii ''less than''
                     then int (length (get_media_list obj)) < n
                   else if rule_list r ! 1 = ascii ''greater than''
                     then int (length (get_media_list obj)) > n
                   else int (length (get_media_list obj)) = n),
              db, obj)"
  using assms
  by (auto simp: prepare_def apply_rule_def Let_def split: if_splits option.splits)

theorem apply_rule_prepared_witness:
  "prepare int_of_two less_than_two =
     Inr (less_than_two\<lparr>count_type := Some 0, userSelectedCount := Some 2\<rparr>) \<and>
   apply_rule (less_than_two\<lparr>count_type := Some 0, userSelectedCount := Some 2\<rparr>) ()
       \<lparr>get_media_list = [CHR ''a'']\<rparr>
     = (Inr True, (), \<lparr>get_media_list = [CHR ''a'']\<rparr>)"
  using apply_rule_prepared [of int_of_two less_than_two
      "less_than_two\<lparr>count_type := Some 0, userSelectedCount := Some 2\<rparr>" "()"
      "\<lparr>get_media_list = [CHR ''a'']\<rparr>"]
  by (simp add: prepare_def less_than_two_def int_of_two_def ascii_def)

end
